theory Spec2Isabelle
  imports Main "HOL-Library.Word"
begin

unbundle bit_operations_syntax

section \<open>Threshold Ed25519 cosigner: data model\<close>

text \<open>
  The development follows \<^verbatim>\<open>signer/threshold_ed25519_signature.go\<close>. Byte slices are lists
  of 8-bit words; a nil slice and an empty slice are both the empty list, except for
  \<^verbatim>\<open>SourceSig\<close>, which the code compares with nil and which is therefore an option.
  Heights, rounds, steps and nanosecond timestamps are only compared and stored, never
  computed with, so they are integers holding the value of the Go machine integer.
\<close>

type_synonym bytes = "8 word list"

subsection \<open>Timestamps (Go \<^verbatim>\<open>time.Time\<close>)\<close>

text \<open>
  The request structures carry a \<^verbatim>\<open>Timestamp\<close> on which the code calls \<^verbatim>\<open>UnixNano()\<close>: a
  \<^verbatim>\<open>time.Time\<close> of the Go standard library. A \<^verbatim>\<open>time.Time\<close> holds \<^verbatim>\<open>wall uint64\<close> and
  \<^verbatim>\<open>ext int64\<close> (and a location pointer, which \<^verbatim>\<open>UnixNano\<close> does not read). Without the
  monotonic bit, \<^verbatim>\<open>ext\<close> is the number of seconds since January 1 of year 1, and the low
  30 bits of \<^verbatim>\<open>wall\<close> are the nanoseconds. \<^verbatim>\<open>UnixNano\<close> is
  \<^verbatim>\<open>(t.sec() + internalToUnix)*1e9 + int64(t.nsec())\<close> in \<^verbatim>\<open>int64\<close> arithmetic, which wraps.
  A field left out of a composite literal has the zero value: \<^verbatim>\<open>wall = 0\<close>, \<^verbatim>\<open>ext = 0\<close>.
\<close>

record Time =
  wall :: "64 word"
  ext :: "64 word"

definition zeroTime :: Time where
  "zeroTime = \<lparr>wall = 0, ext = 0\<rparr>"

definition hasMonotonic :: "64 word" where
  "hasMonotonic = push_bit 63 1"

definition nsecMask :: "64 word" where
  "nsecMask = push_bit 30 1 - 1"

definition wallToInternal :: "64 word" where
  \<comment> \<open>\<^verbatim>\<open>(1884*365 + 1884/4 - 1884/100 + 1884/400) * secondsPerDay\<close>\<close>
  "wallToInternal = 59453308800"

definition unixToInternal :: "64 word" where
  \<comment> \<open>\<^verbatim>\<open>(1969*365 + 1969/4 - 1969/100 + 1969/400) * secondsPerDay\<close>\<close>
  "unixToInternal = 62135596800"

definition time_sec :: "Time \<Rightarrow> 64 word" where
  "time_sec t =
     (if wall t AND hasMonotonic \<noteq> 0
      then wallToInternal + drop_bit 31 (push_bit 1 (wall t))
      else ext t)"

definition time_nsec :: "Time \<Rightarrow> 64 word" where
  "time_nsec t = wall t AND nsecMask"

definition UnixNano :: "Time \<Rightarrow> int" where
  "UnixNano t = sint ((time_sec t - unixToInternal) * 1000000000 + time_nsec t)"

subsection \<open>Keys, metadata and messages\<close>

record HRSTKey =
  Height :: int
  Round :: int
  Step :: int
  Timestamp :: int

record PeerMetadata =
  Share :: bytes
  EphemeralSecretPublicKey :: bytes

text \<open>
  \<^verbatim>\<open>Peers\<close> is a Go slice: copies of an \<^verbatim>\<open>HrsMetadata\<close> value share one backing array, and
  the code writes peer slots through such copies. The slice is therefore the address of
  its array in an explicit store. \<^verbatim>\<open>Secret\<close> and \<^verbatim>\<open>DealtShares\<close> are never written after
  they are built, so they are values.
\<close>

type_synonym addr = nat

record HrsMetadata =
  Secret :: bytes
  DealtShares :: "bytes list"
  Peers :: addr

record rsa_PublicKey =
  rsa_N :: int
  rsa_E :: int

record rsa_PrivateKey =
  rsa_Public :: rsa_PublicKey
  rsa_D :: int

record CosignerKey =
  ID :: int
  ShareKey :: bytes

record CosignerPeer =
  peer_ID :: int
  PublicKey :: rsa_PublicKey

record CosignerSignRequest =
  SignBytes :: bytes

record CosignerSignResponse =
  EphemeralPublic :: bytes
  Signature :: bytes

record CosignerGetEphemeralSecretPartRequest =
  get_ID :: int
  get_Height :: int
  get_Round :: int
  get_Step :: int
  get_Timestamp :: Time

record CosignerEphemeralSecretPart =
  SourceID :: int
  SourceEphemeralSecretPublicKey :: bytes
  EncryptedSharePart :: bytes
  SourceSig :: "bytes option"
  DestinationID :: int

record CosignerSetEphemeralSecretPartRequest =
  set_SourceID :: int
  set_SourceEphemeralSecretPublicKey :: bytes
  set_EncryptedSharePart :: bytes
  set_SourceSig :: "bytes option"
  set_Height :: int
  set_Round :: int
  set_Step :: int
  set_Timestamp :: Time

text \<open>
  The last sign state and the record handed to \<^verbatim>\<open>Save\<close>. Their declarations are not in
  the file; the fields are the ones the code reads and writes.
\<close>

record SignState =
  ss_Height :: int
  ss_Round :: int
  ss_Step :: int
  ss_EphemeralPublic :: bytes
  ss_Signature :: bytes
  ss_SignBytes :: bytes

record SignStateConsensus =
  ssc_Height :: int
  ssc_Round :: int
  ssc_Step :: int
  ssc_Signature :: bytes
  ssc_SignBytes :: bytes

text \<open>
  Errors. The code builds most of them with \<^verbatim>\<open>errors.New\<close>; the constructors carry the
  names the specification gives them:
  \<^verbatim>\<open>NoMetadataForHRS\<close> is "no metadata at HRS",
  \<^verbatim>\<open>EphemeralShareOutOfBounds\<close> is "ephemeral share is out of bounds",
  \<^verbatim>\<open>UnknownPeer\<close> is "unknown peer ID",
  \<^verbatim>\<open>UnknownCosigner\<close> is "unknown cosigner: %d",
  \<^verbatim>\<open>MissingSignature\<close> is "SourceSig field is required",
  \<^verbatim>\<open>PeerAuthError\<close> is the error of \<^verbatim>\<open>rsa.VerifyPSS\<close>.
  \<^verbatim>\<open>IndexOutOfRange\<close> is the run-time panic of an index expression.
\<close>

datatype error =
    RegressionError
  | ConflictingDataError
  | SameHRSError
  | UnpackError
  | NoMetadataForHRS
  | EphemeralShareOutOfBounds
  | UnknownPeer
  | UnknownCosigner int
  | MissingSignature
  | PeerAuthError
  | MarshalError
  | RandError
  | CryptoError
  | IOError
  | IndexOutOfRange

subsection \<open>The engine and what surrounds it\<close>

record LocalSoftSignThresholdEd25519Signature =
  pubKeyBytes :: bytes
  key :: CosignerKey
  rsaKey :: rsa_PrivateKey
  total' :: "8 word"
  threshold :: "8 word"
  lastSignState :: SignState
  hrsMeta :: "HRSTKey \<rightharpoonup> HrsMetadata"
  peers :: "int \<rightharpoonup> CosignerPeer"

text \<open>
  The state a call runs in: the engine, the store of \<^verbatim>\<open>Peers\<close> arrays with the next free
  address, the position of the random source (every read of \<^verbatim>\<open>rand.Reader\<close> moves it by
  one), the durable sign-state file as the list of the records written to it, newest
  first, and the arguments \<^verbatim>\<open>SignWithShare\<close> has been called with, newest first.
\<close>

record world = LocalSoftSignThresholdEd25519Signature +
  store :: "addr \<rightharpoonup> PeerMetadata list"
  next_addr :: addr
  rng :: nat
  disk :: "SignState list"
  signWithShareCalls :: "(bytes \<times> bytes \<times> bytes \<times> bytes \<times> bytes) list"

text \<open>
  Decoded vote sign bytes: the coordinates, the timestamp in nanoseconds, and all the
  other fields of the canonical vote (type, block id, chain id) as they are encoded.
\<close>

record CanonicalVote =
  vote_Height :: int
  vote_Round :: int
  vote_Step :: int
  vote_Timestamp :: int
  vote_Other :: bytes

text \<open>
  The libraries the file imports are parameters of the model: the vote decoder of
  Tendermint, \<^verbatim>\<open>tsed25519\<close> and \<^verbatim>\<open>edwards25519\<close>, \<^verbatim>\<open>crypto/rand\<close>, \<^verbatim>\<open>crypto/rsa\<close>,
  \<^verbatim>\<open>crypto/sha256\<close>, the JSON encoder, and the file system under the sign state. A
  randomised primitive takes the position of the random source.
\<close>

record env =
  UnmarshalVote :: "bytes \<Rightarrow> CanonicalVote option"
  AddScalars :: "bytes list \<Rightarrow> bytes"
  AddElements :: "bytes list \<Rightarrow> bytes"
  ScMinimal :: "bytes \<Rightarrow> bool"
  SignWithShare :: "bytes \<Rightarrow> bytes \<Rightarrow> bytes \<Rightarrow> bytes \<Rightarrow> bytes \<Rightarrow> bytes"
  ScalarMultiplyBase :: "bytes \<Rightarrow> bytes"
  DealShares :: "nat \<Rightarrow> bytes \<Rightarrow> 8 word \<Rightarrow> 8 word \<Rightarrow> bytes list"
  RandRead :: "nat \<Rightarrow> nat \<Rightarrow> bytes option"
  EncryptOAEP :: "nat \<Rightarrow> rsa_PublicKey \<Rightarrow> bytes \<Rightarrow> bytes option"
  DecryptOAEP :: "rsa_PrivateKey \<Rightarrow> bytes \<Rightarrow> bytes option"
  SignPSS :: "nat \<Rightarrow> rsa_PrivateKey \<Rightarrow> bytes \<Rightarrow> bytes option"
  VerifyPSS :: "rsa_PublicKey \<Rightarrow> bytes \<Rightarrow> bytes \<Rightarrow> bool"
  Marshal :: "CosignerEphemeralSecretPart \<Rightarrow> bytes option"
  Sum256 :: "bytes \<Rightarrow> bytes"
  WriteFile :: "SignState \<Rightarrow> bool"

section \<open>The sign state\<close>

definition hrs_less :: "int \<Rightarrow> int \<Rightarrow> int \<Rightarrow> int \<Rightarrow> int \<Rightarrow> int \<Rightarrow> bool" where
  \<comment> \<open>the lexicographic order on (Height, Round, Step)\<close>
  "hrs_less h r s h' r' s' \<longleftrightarrow> h < h' \<or> (h = h' \<and> (r < r' \<or> (r = r' \<and> s < s')))"

definition Less :: "HRSTKey \<Rightarrow> HRSTKey \<Rightarrow> bool" where
  \<comment> \<open>Modelled from the spec: \<^verbatim>\<open>HRSTKey.Less\<close> is not in the file. The order of \<^verbatim>\<open>HRSTKey\<close> is
      lexicographic on (Height, Round, Step); the timestamp is not part of it.\<close>
  "Less k other \<longleftrightarrow>
     hrs_less (Height k) (Round k) (Step k) (Height other) (Round other) (Step other)"

definition UnpackHRST :: "env \<Rightarrow> bytes \<Rightarrow> error + HRSTKey" where
  \<comment> \<open>Modelled from the spec: \<^verbatim>\<open>UnpackHRST\<close> is not in the file. It decodes the block-vote
      structure; height, round, step and timestamp are recovered from the sign bytes.\<close>
  "UnpackHRST env signBytes =
     (case UnmarshalVote env signBytes of
        None \<Rightarrow> Inl UnpackError
      | Some v \<Rightarrow>
          Inr \<lparr>Height = vote_Height v, Round = vote_Round v, Step = vote_Step v,
               Timestamp = vote_Timestamp v\<rparr>)"

definition CheckHRS :: "SignState \<Rightarrow> HRSTKey \<Rightarrow> error + bool" where
  \<comment> \<open>Modelled from the spec: \<^verbatim>\<open>SignState.CheckHRS\<close> is not in the file. It compares
      (Height, Round, Step) to the record: true if identical, false if strictly greater,
      \<^verbatim>\<open>RegressionError\<close> if strictly less.\<close>
  "CheckHRS lss hrst =
     (if Height hrst = ss_Height lss \<and> Round hrst = ss_Round lss \<and> Step hrst = ss_Step lss
      then Inr True
      else if hrs_less (Height hrst) (Round hrst) (Step hrst)
                (ss_Height lss) (ss_Round lss) (ss_Step lss)
      then Inl RegressionError
      else Inr False)"

definition OnlyDifferByTimestamp :: "env \<Rightarrow> SignState \<Rightarrow> bytes \<Rightarrow> error option" where
  \<comment> \<open>Modelled from the spec: \<^verbatim>\<open>SignState.OnlyDifferByTimestamp\<close> is not in the file. It
      decodes the candidate and the recorded sign bytes and succeeds iff every field other
      than the timestamp is identical; otherwise \<^verbatim>\<open>ConflictingDataError\<close>.\<close>
  "OnlyDifferByTimestamp env lss candidate =
     (case (UnmarshalVote env candidate, UnmarshalVote env (ss_SignBytes lss)) of
        (Some new, Some old) \<Rightarrow>
          if vote_Height new = vote_Height old \<and> vote_Round new = vote_Round old
             \<and> vote_Step new = vote_Step old \<and> vote_Other new = vote_Other old
          then None
          else Some ConflictingDataError
      | _ \<Rightarrow> Some ConflictingDataError)"

definition Save ::
  "env \<Rightarrow> SignState \<Rightarrow> SignState list \<Rightarrow> SignStateConsensus
     \<Rightarrow> error option \<times> SignState \<times> SignState list" where
  \<comment> \<open>Modelled from the spec: \<^verbatim>\<open>SignState.Save\<close> is not in the file. Same HRS and identical
      sign bytes: \<^verbatim>\<open>SameHRSError\<close>. HRS strictly less: \<^verbatim>\<open>RegressionError\<close>. Otherwise the
      record is overwritten and written to the file. The specification calls the write
      atomic and lets \<^verbatim>\<open>Save\<close> return other errors without naming them: here the file system
      may refuse the write, and then \<^verbatim>\<open>Save\<close> returns \<^verbatim>\<open>IOError\<close> and nothing has changed.
      The second argument is nil in the only call and is left out.\<close>
  "Save env lss dsk ssc =
     (if ssc_Height ssc = ss_Height lss \<and> ssc_Round ssc = ss_Round lss
         \<and> ssc_Step ssc = ss_Step lss \<and> ssc_SignBytes ssc = ss_SignBytes lss
      then (Some SameHRSError, lss, dsk)
      else if hrs_less (ssc_Height ssc) (ssc_Round ssc) (ssc_Step ssc)
                (ss_Height lss) (ss_Round lss) (ss_Step lss)
      then (Some RegressionError, lss, dsk)
      else
        (let lss' = lss\<lparr>ss_Height := ssc_Height ssc, ss_Round := ssc_Round ssc,
                        ss_Step := ssc_Step ssc, ss_Signature := ssc_Signature ssc,
                        ss_SignBytes := ssc_SignBytes ssc\<rparr>
         in if WriteFile env lss' then (None, lss', lss' # dsk)
            else (Some IOError, lss, dsk)))"

section \<open>The engine\<close>

subsection \<open>sign\<close>

fun collect ::
  "PeerMetadata list \<Rightarrow> bytes list \<times> bytes list \<Rightarrow> bytes list \<times> bytes list" where
  \<comment> \<open>the loop over \<^verbatim>\<open>meta.Peers\<close>: slots with an empty share are skipped\<close>
  "collect [] acc = acc"
| "collect (peer # rest) (shareParts, publicKeys) =
     (if length (Share peer) = 0 then collect rest (shareParts, publicKeys)
      else collect rest (shareParts @ [Share peer],
                         publicKeys @ [EphemeralSecretPublicKey peer]))"

definition slots :: "world \<Rightarrow> addr \<Rightarrow> PeerMetadata list" where
  \<comment> \<open>the elements of a \<^verbatim>\<open>Peers\<close> slice; an address that was never allocated is the nil slice\<close>
  "slots w a = (case store w a of None \<Rightarrow> [] | Some ps \<Rightarrow> ps)"

definition deleteLower ::
  "HRSTKey \<Rightarrow> (HRSTKey \<rightharpoonup> HrsMetadata) \<Rightarrow> (HRSTKey \<rightharpoonup> HrsMetadata)" where
  \<comment> \<open>the loop over \<^verbatim>\<open>cosigner.hrsMeta\<close>: every key that is \<^verbatim>\<open>Less\<close> than \<^verbatim>\<open>hrst\<close> is deleted\<close>
  "deleteLower hrst m = (\<lambda>existingKey. if Less existingKey hrst then None else m existingKey)"

definition sign ::
  "env \<Rightarrow> world \<Rightarrow> CosignerSignRequest \<Rightarrow> (error + CosignerSignResponse) \<times> world" where
  "sign env w req =
     (let lss = lastSignState w in
      case UnpackHRST env (SignBytes req) of
        Inl err \<Rightarrow> (Inl err, w)
      | Inr hrst \<Rightarrow>
      (case CheckHRS lss hrst of
        Inl err \<Rightarrow> (Inl err, w)
      | Inr sameHRS \<Rightarrow>
      if sameHRS \<and> SignBytes req = ss_SignBytes lss
      then (Inr \<lparr>EphemeralPublic = ss_EphemeralPublic lss, Signature = ss_Signature lss\<rparr>, w)
      else
      (case (if sameHRS then OnlyDifferByTimestamp env lss (SignBytes req) else None) of
        Some err \<Rightarrow> (Inl err, w)
      | None \<Rightarrow>
      (case hrsMeta w hrst of
        None \<Rightarrow> (Inl NoMetadataForHRS, w)
      | Some meta \<Rightarrow>
      (let (shareParts, publicKeys) = collect (slots w (Peers meta)) ([], []);
           ephemeralShare = AddScalars env shareParts;
           ephemeralPublic = AddElements env publicKeys
       in
       if length ephemeralShare = 32 then
       if ScMinimal env ephemeralShare then
       (let sig = SignWithShare env (SignBytes req) (ShareKey (key w)) ephemeralShare
                    (pubKeyBytes w) ephemeralPublic;
            w1 = w\<lparr>signWithShareCalls :=
                     (SignBytes req, ShareKey (key w), ephemeralShare, pubKeyBytes w,
                      ephemeralPublic) # signWithShareCalls w\<rparr>;
            w2 = w1\<lparr>lastSignState := lss\<lparr>ss_EphemeralPublic := ephemeralPublic\<rparr>\<rparr>;
            (err, lss', dsk') =
               Save env (lastSignState w2) (disk w2)
                 \<lparr>ssc_Height = Height hrst, ssc_Round = Round hrst, ssc_Step = Step hrst,
                  ssc_Signature = sig, ssc_SignBytes = SignBytes req\<rparr>;
            w3 = w2\<lparr>lastSignState := lss', disk := dsk'\<rparr>
        in
        case (if err = Some SameHRSError then None else err) of
          Some e \<Rightarrow> (Inl e, w3)
        | None \<Rightarrow>
          (Inr \<lparr>EphemeralPublic = ephemeralPublic, Signature = sig\<rparr>,
           w3\<lparr>hrsMeta := deleteLower hrst (hrsMeta w3)\<rparr>))
       else (Inl EphemeralShareOutOfBounds, w)
       else (Inl EphemeralShareOutOfBounds, w))))))"

subsection \<open>dealShares\<close>

definition emptyPeer :: PeerMetadata where
  \<comment> \<open>the zero value of \<^verbatim>\<open>PeerMetadata\<close>\<close>
  "emptyPeer = \<lparr>Share = [], EphemeralSecretPublicKey = []\<rparr>"

definition getKey :: "CosignerGetEphemeralSecretPartRequest \<Rightarrow> HRSTKey" where
  \<comment> \<open>the \<^verbatim>\<open>HRSTKey\<close> literal built from a get request\<close>
  "getKey req = \<lparr>Height = get_Height req, Round = get_Round req, Step = get_Step req,
                  Timestamp = UnixNano (get_Timestamp req)\<rparr>"

definition setKey :: "CosignerSetEphemeralSecretPartRequest \<Rightarrow> HRSTKey" where
  \<comment> \<open>the \<^verbatim>\<open>HRSTKey\<close> literal built from a set request\<close>
  "setKey req = \<lparr>Height = set_Height req, Round = set_Round req, Step = set_Step req,
                  Timestamp = UnixNano (set_Timestamp req)\<rparr>"

definition dealShares ::
  "env \<Rightarrow> world \<Rightarrow> CosignerGetEphemeralSecretPartRequest
     \<Rightarrow> (error + HrsMetadata) \<times> world" where
  "dealShares env w req =
     (let hrsKey = getKey req
      in
      case hrsMeta w hrsKey of
        Some meta \<Rightarrow> (Inr meta, w)
      | None \<Rightarrow>
      (case RandRead env (rng w) 32 of
        None \<Rightarrow> (Inl RandError, w\<lparr>rng := rng w + 1\<rparr>)
      | Some secret \<Rightarrow>
      (let w1 = w\<lparr>rng := rng w + 1\<rparr>;
           a = next_addr w1;
           w2 = w1\<lparr>store := (store w1)(a \<mapsto> replicate (unat (total' w1)) emptyPeer),
                   next_addr := a + 1\<rparr>;
           meta = \<lparr>Secret = secret,
                   DealtShares = DealShares env (rng w2) secret (threshold w2) (total' w2),
                   Peers = a\<rparr>;
           w3 = w2\<lparr>rng := rng w2 + 1\<rparr>
       in (Inr meta, w3\<lparr>hrsMeta := (hrsMeta w3)(hrsKey \<mapsto> meta)\<rparr>))))"

subsection \<open>getEphemeralSecretPart and setEphemeralSecretPart\<close>

definition index_ok :: "int \<Rightarrow> 'a list \<Rightarrow> bool" where
  \<comment> \<open>an index expression panics outside the slice\<close>
  "index_ok i xs \<longleftrightarrow> 0 \<le> i \<and> i < int (length xs)"

definition lookupOrDeal ::
  "env \<Rightarrow> world \<Rightarrow> HRSTKey \<Rightarrow> CosignerGetEphemeralSecretPartRequest
     \<Rightarrow> (error + HrsMetadata) \<times> world" where
  \<comment> \<open>"generate metadata placeholder": the lookup under \<^verbatim>\<open>hrst\<close> and, when it misses, the
      call of \<^verbatim>\<open>dealShares\<close> with the request the caller builds, whose result is stored
      under \<^verbatim>\<open>hrst\<close>\<close>
  "lookupOrDeal env w hrst dealReq =
     (case hrsMeta w hrst of
        Some meta \<Rightarrow> (Inr meta, w)
      | None \<Rightarrow>
      (case dealShares env w dealReq of
        (Inl err, w') \<Rightarrow> (Inl err, w')
      | (Inr newMeta, w') \<Rightarrow>
          (Inr newMeta, w'\<lparr>hrsMeta := (hrsMeta w')(hrst \<mapsto> newMeta)\<rparr>)))"

definition getEphemeralSecretPart ::
  "env \<Rightarrow> world \<Rightarrow> CosignerGetEphemeralSecretPartRequest
     \<Rightarrow> (error + CosignerEphemeralSecretPart) \<times> world" where
  "getEphemeralSecretPart env w req =
     (let hrst = getKey req
      in
      case lookupOrDeal env w hrst
             \<lparr>get_ID = 0, get_Height = get_Height req, get_Round = get_Round req,
              get_Step = get_Step req, get_Timestamp = get_Timestamp req\<rparr> of
        (Inl err, w1) \<Rightarrow> (Inl err, w1)
      | (Inr meta, w1) \<Rightarrow>
      (let ourEphPublicKey = ScalarMultiplyBase env (Secret meta);
           i = ID (key w1) - 1;
           ps = slots w1 (Peers meta)
       in
       if index_ok i ps \<and> index_ok i (DealtShares meta) then
       (let ps1 = ps[nat i := (ps ! nat i)\<lparr>Share := DealtShares meta ! nat i\<rparr>];
            ps2 = ps1[nat i := (ps1 ! nat i)\<lparr>EphemeralSecretPublicKey := ourEphPublicKey\<rparr>];
            w2 = w1\<lparr>store := (store w1)(Peers meta \<mapsto> ps2)\<rparr>
        in
        case peers w2 (get_ID req) of
          None \<Rightarrow> (Inl UnknownPeer, w2)
        | Some peer \<Rightarrow>
        if index_ok (get_ID req - 1) (DealtShares meta) then
        (let sharePart = DealtShares meta ! nat (get_ID req - 1);
             w3 = w2\<lparr>rng := rng w2 + 1\<rparr>
         in
         case EncryptOAEP env (rng w2) (PublicKey peer) sharePart of
           None \<Rightarrow> (Inl CryptoError, w3)
         | Some encrypted \<Rightarrow>
         (let res = \<lparr>SourceID = ID (key w3),
                     SourceEphemeralSecretPublicKey = ourEphPublicKey,
                     EncryptedSharePart = encrypted, SourceSig = None, DestinationID = 0\<rparr>
          in
          case Marshal env res of
            None \<Rightarrow> (Inl MarshalError, w3)
          | Some jsonBytes \<Rightarrow>
          (let w4 = w3\<lparr>rng := rng w3 + 1\<rparr>
           in
           case SignPSS env (rng w3) (rsaKey w3) (Sum256 env jsonBytes) of
             None \<Rightarrow> (Inl CryptoError, w4)
           | Some signature \<Rightarrow>
               (Inr (res\<lparr>SourceSig := Some signature, DestinationID := get_ID req\<rparr>),
                w4))))
        else (Inl IndexOutOfRange, w2))
       else (Inl IndexOutOfRange, w1)))"

definition setEphemeralSecretPart ::
  "env \<Rightarrow> world \<Rightarrow> CosignerSetEphemeralSecretPartRequest \<Rightarrow> (error + unit) \<times> world" where
  "setEphemeralSecretPart env w req =
     (case set_SourceSig req of
        None \<Rightarrow> (Inl MissingSignature, w)
      | Some sourceSig \<Rightarrow>
      (let digestMsg = \<lparr>SourceID = set_SourceID req,
                         SourceEphemeralSecretPublicKey = set_SourceEphemeralSecretPublicKey req,
                         EncryptedSharePart = set_EncryptedSharePart req,
                         SourceSig = None, DestinationID = 0\<rparr>
       in
       case Marshal env digestMsg of
         None \<Rightarrow> (Inl MarshalError, w)
       | Some digestBytes \<Rightarrow>
       (let digest = Sum256 env digestBytes
        in
        case peers w (set_SourceID req) of
          None \<Rightarrow> (Inl (UnknownCosigner (set_SourceID req)), w)
        | Some peer \<Rightarrow>
        if VerifyPSS env (PublicKey peer) digest sourceSig then
        (let hrst = setKey req
         in
         case lookupOrDeal env w hrst
                \<lparr>get_ID = 0, get_Height = set_Height req, get_Round = set_Round req,
                 get_Step = set_Step req, get_Timestamp = zeroTime\<rparr> of
           (Inl err, w1) \<Rightarrow> (Inl err, w1)
         | (Inr meta, w1) \<Rightarrow>
         (case DecryptOAEP env (rsaKey w1) (set_EncryptedSharePart req) of
            None \<Rightarrow> (Inl CryptoError, w1)
          | Some sharePart \<Rightarrow>
          (let i = set_SourceID req - 1;
               ps = slots w1 (Peers meta)
           in
           if index_ok i ps then
           (let ps1 = ps[nat i := (ps ! nat i)\<lparr>Share := sharePart\<rparr>];
                ps2 = ps1[nat i := (ps1 ! nat i)\<lparr>EphemeralSecretPublicKey :=
                                                    set_SourceEphemeralSecretPublicKey req\<rparr>]
            in (Inr (), w1\<lparr>store := (store w1)(Peers meta \<mapsto> ps2)\<rparr>))
           else (Inl IndexOutOfRange, w1))))
        else (Inl PeerAuthError, w))))"

section \<open>Notions the properties are stated with\<close>

definition populated :: "PeerMetadata list \<Rightarrow> PeerMetadata list" where
  \<comment> \<open>the peer slots with a non-empty share\<close>
  "populated ps = filter (\<lambda>peer. Share peer \<noteq> []) ps"

definition ephemeralShareOf :: "env \<Rightarrow> world \<Rightarrow> HrsMetadata \<Rightarrow> bytes" where
  \<comment> \<open>the scalar sum of all non-empty peer shares\<close>
  "ephemeralShareOf env w meta = AddScalars env (map Share (populated (slots w (Peers meta))))"

definition ephemeralPublicOf :: "env \<Rightarrow> world \<Rightarrow> HrsMetadata \<Rightarrow> bytes" where
  \<comment> \<open>the sum of the public keys of the populated slots\<close>
  "ephemeralPublicOf env w meta =
     AddElements env (map EphemeralSecretPublicKey (populated (slots w (Peers meta))))"

definition canonicalShare :: "env \<Rightarrow> bytes \<Rightarrow> bool" where
  "canonicalShare env s \<longleftrightarrow> length s = 32 \<and> ScMinimal env s"

definition sameHRS :: "SignState \<Rightarrow> HRSTKey \<Rightarrow> bool" where
  "sameHRS lss hrst \<longleftrightarrow>
     Height hrst = ss_Height lss \<and> Round hrst = ss_Round lss \<and> Step hrst = ss_Step lss"

definition isReplay :: "world \<Rightarrow> CosignerSignRequest \<Rightarrow> HRSTKey \<Rightarrow> bool" where
  \<comment> \<open>the request repeats the recorded one: same HRS and identical sign bytes\<close>
  "isReplay w req hrst \<longleftrightarrow>
     sameHRS (lastSignState w) hrst \<and> SignBytes req = ss_SignBytes (lastSignState w)"

definition passesStateChecks ::
  "env \<Rightarrow> world \<Rightarrow> CosignerSignRequest \<Rightarrow> HRSTKey \<Rightarrow> bool" where
  \<comment> \<open>the call gets as far as the lookup of the metadata: the sign bytes unpack to
      \<^verbatim>\<open>hrst\<close>, the HRS does not regress, and at the same HRS the sign bytes are new and
      differ from the recorded ones by the timestamp only\<close>
  "passesStateChecks env w req hrst \<longleftrightarrow>
     UnpackHRST env (SignBytes req) = Inr hrst \<and>
     (case CheckHRS (lastSignState w) hrst of
        Inl err \<Rightarrow> False
      | Inr same \<Rightarrow>
          if same
          then SignBytes req \<noteq> ss_SignBytes (lastSignState w) \<and>
               OnlyDifferByTimestamp env (lastSignState w) (SignBytes req) = None
          else True)"

definition savedRecord :: "HRSTKey \<Rightarrow> bytes \<Rightarrow> bytes \<Rightarrow> bytes \<Rightarrow> SignState" where
  \<comment> \<open>the sign state after \<^verbatim>\<open>sign\<close> has set \<^verbatim>\<open>EphemeralPublic\<close> and \<^verbatim>\<open>Save\<close> has overwritten
      the rest\<close>
  "savedRecord hrst signBytes ephemeralPublic sig =
     \<lparr>ss_Height = Height hrst, ss_Round = Round hrst, ss_Step = Step hrst,
      ss_EphemeralPublic = ephemeralPublic, ss_Signature = sig, ss_SignBytes = signBytes\<rparr>"

definition partialSignature :: "env \<Rightarrow> world \<Rightarrow> CosignerSignRequest \<Rightarrow> HrsMetadata \<Rightarrow> bytes" where
  \<comment> \<open>what \<^verbatim>\<open>SignWithShare\<close> returns on the aggregates of the metadata\<close>
  "partialSignature env w req meta =
     SignWithShare env (SignBytes req) (ShareKey (key w)) (ephemeralShareOf env w meta)
       (pubKeyBytes w) (ephemeralPublicOf env w meta)"

definition signedWorld :: "env \<Rightarrow> world \<Rightarrow> CosignerSignRequest \<Rightarrow> HrsMetadata \<Rightarrow> world" where
  \<comment> \<open>the state between the call of \<^verbatim>\<open>SignWithShare\<close> and the call of \<^verbatim>\<open>Save\<close>: the call is
      logged and \<^verbatim>\<open>lastSignState.EphemeralPublic\<close> is assigned\<close>
  "signedWorld env w req meta =
     w\<lparr>lastSignState := (lastSignState w)\<lparr>ss_EphemeralPublic := ephemeralPublicOf env w meta\<rparr>,
       signWithShareCalls :=
         (SignBytes req, ShareKey (key w), ephemeralShareOf env w meta, pubKeyBytes w,
          ephemeralPublicOf env w meta) # signWithShareCalls w\<rparr>"

definition consensusRecord ::
  "env \<Rightarrow> world \<Rightarrow> CosignerSignRequest \<Rightarrow> HRSTKey \<Rightarrow> HrsMetadata \<Rightarrow> SignStateConsensus" where
  \<comment> \<open>the record \<^verbatim>\<open>sign\<close> hands to \<^verbatim>\<open>Save\<close>\<close>
  "consensusRecord env w req hrst meta =
     \<lparr>ssc_Height = Height hrst, ssc_Round = Round hrst, ssc_Step = Step hrst,
      ssc_Signature = partialSignature env w req meta, ssc_SignBytes = SignBytes req\<rparr>"

definition envelopeVerifies ::
  "env \<Rightarrow> world \<Rightarrow> CosignerSetEphemeralSecretPartRequest \<Rightarrow> bool" where
  \<comment> \<open>\<^verbatim>\<open>SourceSig\<close> is present and verifies, under the configured public key of the claimed
      \<^verbatim>\<open>SourceID\<close>, on the digest of the serialisation of
      \<^verbatim>\<open>{SourceID, SourceEphemeralSecretPublicKey, EncryptedSharePart}\<close>\<close>
  "envelopeVerifies env w req \<longleftrightarrow>
     (case set_SourceSig req of
        None \<Rightarrow> False
      | Some sourceSig \<Rightarrow>
      (case Marshal env \<lparr>SourceID = set_SourceID req,
                         SourceEphemeralSecretPublicKey = set_SourceEphemeralSecretPublicKey req,
                         EncryptedSharePart = set_EncryptedSharePart req,
                         SourceSig = None, DestinationID = 0\<rparr> of
         None \<Rightarrow> False
       | Some digestBytes \<Rightarrow>
       (case peers w (set_SourceID req) of
          None \<Rightarrow> False
        | Some peer \<Rightarrow> VerifyPSS env (PublicKey peer) (Sum256 env digestBytes) sourceSig)))"

definition zeroKey :: "CosignerSetEphemeralSecretPartRequest \<Rightarrow> HRSTKey" where
  \<comment> \<open>the key \<^verbatim>\<open>dealShares\<close> builds from a request whose \<^verbatim>\<open>Timestamp\<close> was left out\<close>
  "zeroKey req =
     getKey \<lparr>get_ID = 0, get_Height = set_Height req, get_Round = set_Round req,
             get_Step = set_Step req, get_Timestamp = zeroTime\<rparr>"

section \<open>A small instance for evaluating the model\<close>

text \<open>
  Concrete stand-ins for the libraries, small enough to compute with: sign bytes are five
  bytes (height, round, step, timestamp, the rest), scalars and elements are added
  bytewise, a scalar is minimal when its top byte is below 16, encryption is the identity,
  and a PSS signature is the low byte of the modulus in front of the digest.
\<close>

definition toy_unmarshal :: "bytes \<Rightarrow> CanonicalVote option" where
  "toy_unmarshal bs =
     (case bs of
        [h, r, s, t, b] \<Rightarrow>
          Some \<lparr>vote_Height = uint h, vote_Round = uint r, vote_Step = uint s,
                vote_Timestamp = uint t, vote_Other = [b]\<rparr>
      | _ \<Rightarrow> None)"

definition toy_add :: "bytes list \<Rightarrow> bytes" where
  "toy_add xs = foldr (\<lambda>x acc. map (\<lambda>(a, b). a + b) (zip x acc)) xs (replicate 32 0)"

definition toy_env :: env where
  "toy_env =
     \<lparr>UnmarshalVote = toy_unmarshal,
      AddScalars = toy_add,
      AddElements = toy_add,
      ScMinimal = (\<lambda>s. s \<noteq> [] \<and> last s < 16),
      SignWithShare = (\<lambda>msg shareKey ephemeralShare pub ephemeralPublic.
                         ephemeralPublic @ toy_add [shareKey, ephemeralShare]),
      ScalarMultiplyBase = (\<lambda>s. s),
      DealShares = (\<lambda>pos secret t n. replicate (unat n) secret),
      RandRead = (\<lambda>pos n. Some (replicate n (word_of_nat (pos + 1)))),
      EncryptOAEP = (\<lambda>pos pub msg. Some msg),
      DecryptOAEP = (\<lambda>priv ct. Some ct),
      SignPSS = (\<lambda>pos priv digest. Some (word_of_int (rsa_N (rsa_Public priv)) # digest)),
      VerifyPSS = (\<lambda>pub digest sg. sg = word_of_int (rsa_N pub) # digest),
      Marshal = (\<lambda>m. Some (word_of_int (SourceID m)
                           # SourceEphemeralSecretPublicKey m @ EncryptedSharePart m)),
      Sum256 = (\<lambda>bs. bs),
      WriteFile = (\<lambda>r. True)\<rparr>"

definition failing_disk_env :: env where
  \<comment> \<open>the same libraries over a file system that refuses every write\<close>
  "failing_disk_env = toy_env\<lparr>WriteFile := (\<lambda>r. False)\<rparr>"

definition toy_state :: SignState where
  \<comment> \<open>the record of a sign at (10, 0, 2)\<close>
  "toy_state =
     \<lparr>ss_Height = 10, ss_Round = 0, ss_Step = 2, ss_EphemeralPublic = [7],
      ss_Signature = [9], ss_SignBytes = [10, 0, 2, 0, 5]\<rparr>"

definition toy_meta :: HrsMetadata where
  "toy_meta = \<lparr>Secret = replicate 32 3, DealtShares = replicate 3 (replicate 32 3), Peers = 0\<rparr>"

definition toy_world :: world where
  \<comment> \<open>cosigner 1 of 3 with threshold 2, after a sign at (10, 0, 2); peers 2 and 3 are
      configured; no metadata\<close>
  "toy_world =
     \<lparr>pubKeyBytes = [1],
      key = \<lparr>ID = 1, ShareKey = replicate 32 1\<rparr>,
      rsaKey = \<lparr>rsa_Public = \<lparr>rsa_N = 101, rsa_E = 3\<rparr>, rsa_D = 7\<rparr>,
      total' = 3,
      threshold = 2,
      lastSignState = toy_state,
      hrsMeta = Map.empty,
      peers = [2 \<mapsto> \<lparr>peer_ID = 2, PublicKey = \<lparr>rsa_N = 102, rsa_E = 3\<rparr>\<rparr>,
               3 \<mapsto> \<lparr>peer_ID = 3, PublicKey = \<lparr>rsa_N = 103, rsa_E = 3\<rparr>\<rparr>],
      store = Map.empty,
      next_addr = 0,
      rng = 0,
      disk = [toy_state],
      signWithShareCalls = []\<rparr>"

definition one_share_world :: "int \<Rightarrow> world" where
  \<comment> \<open>metadata at (h, 0, 2, 0) with one populated slot out of three, below the threshold 2\<close>
  "one_share_world h =
     toy_world\<lparr>hrsMeta := [\<lparr>Height = h, Round = 0, Step = 2, Timestamp = 0\<rparr> \<mapsto> toy_meta],
               store := [0 \<mapsto> [\<lparr>Share = replicate 32 3,
                                 EphemeralSecretPublicKey = replicate 32 4\<rparr>,
                                emptyPeer, emptyPeer]],
               next_addr := 1\<rparr>"

definition two_round_world :: world where
  \<comment> \<open>metadata at (5, 0, 2, 0) and at (11, 0, 2, 0), the sign state at (10, 0, 2)\<close>
  "two_round_world =
     (one_share_world 11)\<lparr>hrsMeta :=
        [\<lparr>Height = 5, Round = 0, Step = 2, Timestamp = 0\<rparr> \<mapsto> toy_meta,
         \<lparr>Height = 11, Round = 0, Step = 2, Timestamp = 0\<rparr> \<mapsto> toy_meta]\<rparr>"

definition short_share_world :: world where
  \<comment> \<open>metadata at (11, 0, 2, 0) whose only share is one byte long\<close>
  "short_share_world =
     (one_share_world 11)\<lparr>store := [0 \<mapsto> [emptyPeer,
                                             \<lparr>Share = [6], EphemeralSecretPublicKey = [8]\<rparr>,
                                             emptyPeer]]\<rparr>"

definition forged_set_request :: CosignerSetEphemeralSecretPartRequest where
  \<comment> \<open>an envelope that claims peer 3 as its source and is signed with the key of peer 2\<close>
  "forged_set_request =
     \<lparr>set_SourceID = 3, set_SourceEphemeralSecretPublicKey = [8], set_EncryptedSharePart = [6],
      set_SourceSig = Some [102, 3, 8, 6],
      set_Height = 11, set_Round = 0, set_Step = 2,
      set_Timestamp = \<lparr>wall = 0, ext = 62135596801\<rparr>\<rparr>"

definition toy_set_request :: CosignerSetEphemeralSecretPartRequest where
  \<comment> \<open>an envelope of peer 2 for (11, 0, 2) at Unix time 1 s, signed with the key of peer 2\<close>
  "toy_set_request =
     \<lparr>set_SourceID = 2, set_SourceEphemeralSecretPublicKey = [8], set_EncryptedSharePart = [6],
      set_SourceSig = Some [102, 2, 8, 6],
      set_Height = 11, set_Round = 0, set_Step = 2,
      set_Timestamp = \<lparr>wall = 0, ext = 62135596801\<rparr>\<rparr>"

definition toy_get_request :: CosignerGetEphemeralSecretPartRequest where
  \<comment> \<open>peer 2 asks for its part at (11, 0, 2), Unix time 1 s\<close>
  "toy_get_request =
     \<lparr>get_ID = 2, get_Height = 11, get_Round = 0, get_Step = 2,
      get_Timestamp = \<lparr>wall = 0, ext = 62135596801\<rparr>\<rparr>"

lemmas toy_defs = toy_env_def toy_unmarshal_def toy_add_def toy_state_def toy_meta_def
  toy_world_def one_share_world_def two_round_world_def short_share_world_def emptyPeer_def
  failing_disk_env_def toy_set_request_def forged_set_request_def toy_get_request_def

section \<open>Properties\<close>

subsection \<open>How a call of sign proceeds\<close>

lemma collect_populated:
  "collect ps (shareParts, publicKeys) =
     (shareParts @ map Share (populated ps),
      publicKeys @ map EphemeralSecretPublicKey (populated ps))"
  by (induction ps arbitrary: shareParts publicKeys) (simp_all add: populated_def)

lemma CheckHRS_same: "sameHRS lss hrst \<Longrightarrow> CheckHRS lss hrst = Inr True"
  by (simp add: CheckHRS_def sameHRS_def)

lemma CheckHRS_regression:
  "hrs_less (Height hrst) (Round hrst) (Step hrst) (ss_Height lss) (ss_Round lss) (ss_Step lss)
     \<Longrightarrow> CheckHRS lss hrst = Inl RegressionError"
  by (auto simp add: CheckHRS_def hrs_less_def)

lemma sign_unchecked:
  assumes "\<And>hrst. \<not> passesStateChecks env w req hrst"
  shows "snd (sign env w req) = w"
proof (cases "UnpackHRST env (SignBytes req)")
  case (Inl err)
  then show ?thesis by (simp add: sign_def)
next
  case u: (Inr hrst)
  show ?thesis
  proof (cases "CheckHRS (lastSignState w) hrst")
    case (Inl err)
    with u show ?thesis by (simp add: sign_def)
  next
    case c: (Inr same)
    from assms [of hrst] u c
    have same and "SignBytes req \<noteq> ss_SignBytes (lastSignState w) \<Longrightarrow>
        OnlyDifferByTimestamp env (lastSignState w) (SignBytes req) \<noteq> None"
      by (auto simp add: passesStateChecks_def split: if_splits)
    with u c show ?thesis
      by (cases "SignBytes req = ss_SignBytes (lastSignState w)")
         (auto simp add: sign_def Let_def)
  qed
qed

lemma sign_no_metadata:
  assumes "passesStateChecks env w req hrst" and "hrsMeta w hrst = None"
  shows "sign env w req = (Inl NoMetadataForHRS, w)"
  using assms
  by (auto simp add: sign_def passesStateChecks_def Let_def
      split: sum.splits option.splits if_splits)

lemma sign_out_of_bounds:
  assumes "passesStateChecks env w req hrst" and "hrsMeta w hrst = Some meta"
    and "\<not> canonicalShare env (ephemeralShareOf env w meta)"
  shows "sign env w req = (Inl EphemeralShareOutOfBounds, w)"
  using assms
  by (auto simp add: sign_def passesStateChecks_def Let_def collect_populated
      canonicalShare_def ephemeralShareOf_def
      split: sum.splits option.splits if_splits)

lemma sign_signed:
  assumes "passesStateChecks env w req hrst" and "hrsMeta w hrst = Some meta"
    and "canonicalShare env (ephemeralShareOf env w meta)"
    and "Save env (lastSignState (signedWorld env w req meta)) (disk w)
           (consensusRecord env w req hrst meta) = (err, lss', dsk')"
  shows "sign env w req =
     (case (if err = Some SameHRSError then None else err) of
        Some e \<Rightarrow> (Inl e, (signedWorld env w req meta)\<lparr>lastSignState := lss', disk := dsk'\<rparr>)
      | None \<Rightarrow>
         (Inr \<lparr>EphemeralPublic = ephemeralPublicOf env w meta,
               Signature = partialSignature env w req meta\<rparr>,
          (signedWorld env w req meta)
            \<lparr>lastSignState := lss', disk := dsk',
             hrsMeta := deleteLower hrst (hrsMeta w)\<rparr>))"
proof -
  from assms(1) have u: "UnpackHRST env (SignBytes req) = Inr hrst"
    by (simp add: passesStateChecks_def)
  from assms(1) obtain same where c: "CheckHRS (lastSignState w) hrst = Inr same"
    and s: "same \<Longrightarrow> SignBytes req \<noteq> ss_SignBytes (lastSignState w)"
    and d: "same \<Longrightarrow> OnlyDifferByTimestamp env (lastSignState w) (SignBytes req) = None"
    by (auto simp add: passesStateChecks_def split: sum.splits if_splits)
  from assms(3) have l: "length (AddScalars env (map Share (populated (slots w (Peers meta))))) = 32"
    and m: "ScMinimal env (AddScalars env (map Share (populated (slots w (Peers meta)))))"
    by (simp_all add: canonicalShare_def ephemeralShareOf_def)
  show ?thesis
  proof (cases same)
    case True
    with s d have "SignBytes req \<noteq> ss_SignBytes (lastSignState w)"
      and "OnlyDifferByTimestamp env (lastSignState w) (SignBytes req) = None" by simp_all
    with u c l m assms(2) assms(4) True show ?thesis
      by (simp add: sign_def Let_def collect_populated ephemeralShareOf_def
          ephemeralPublicOf_def signedWorld_def partialSignature_def consensusRecord_def
          split: option.splits)
  next
    case False
    with u c l m assms(2) assms(4) show ?thesis
      by (simp add: sign_def Let_def collect_populated ephemeralShareOf_def
          ephemeralPublicOf_def signedWorld_def partialSignature_def consensusRecord_def
          split: option.splits)
  qed
qed

lemma Save_after_checks:
  assumes "passesStateChecks env w req hrst"
  shows "Save env ((lastSignState w)\<lparr>ss_EphemeralPublic := ep\<rparr>) dsk
           \<lparr>ssc_Height = Height hrst, ssc_Round = Round hrst, ssc_Step = Step hrst,
            ssc_Signature = sig, ssc_SignBytes = SignBytes req\<rparr> =
         (if WriteFile env (savedRecord hrst (SignBytes req) ep sig)
          then (None, savedRecord hrst (SignBytes req) ep sig,
                savedRecord hrst (SignBytes req) ep sig # dsk)
          else (Some IOError, (lastSignState w)\<lparr>ss_EphemeralPublic := ep\<rparr>, dsk))"
proof -
  from assms obtain same where c: "CheckHRS (lastSignState w) hrst = Inr same"
    and s: "same \<Longrightarrow> SignBytes req \<noteq> ss_SignBytes (lastSignState w)"
    by (auto simp add: passesStateChecks_def split: sum.splits if_splits)
  from c have n: "\<not> hrs_less (Height hrst) (Round hrst) (Step hrst)
      (ss_Height (lastSignState w)) (ss_Round (lastSignState w)) (ss_Step (lastSignState w))"
    by (auto simp add: CheckHRS_def hrs_less_def split: if_splits)
  from c s have d: "\<not> (Height hrst = ss_Height (lastSignState w) \<and> Round hrst = ss_Round (lastSignState w)
      \<and> Step hrst = ss_Step (lastSignState w) \<and> SignBytes req = ss_SignBytes (lastSignState w))"
    by (auto simp add: CheckHRS_def split: if_splits)
  have r: "(lastSignState w)\<lparr>ss_EphemeralPublic := ep, ss_Height := Height hrst,
      ss_Round := Round hrst, ss_Step := Step hrst, ss_Signature := sig,
      ss_SignBytes := SignBytes req\<rparr> = savedRecord hrst (SignBytes req) ep sig"
    by (simp add: savedRecord_def)
  from n d show ?thesis
    unfolding Save_def Let_def by (simp add: r)
qed

lemma Save_failure_keeps_state:
  "Save env lss dsk ssc = (Some e, lss', dsk') \<Longrightarrow> lss' = lss \<and> dsk' = dsk"
  by (auto simp add: Save_def Let_def split: if_splits)

lemma sign_success_checked:
  assumes "sign env w req = (Inr res, w')" and "UnpackHRST env (SignBytes req) = Inr hrst"
    and "\<not> isReplay w req hrst"
  shows "passesStateChecks env w req hrst"
proof (cases "CheckHRS (lastSignState w) hrst")
  case (Inl err)
  with assms(1,2) show ?thesis by (simp add: sign_def)
next
  case c: (Inr same)
  show ?thesis
  proof (cases same)
    case False
    with c assms(2) show ?thesis by (simp add: passesStateChecks_def)
  next
    case True
    with c have "sameHRS (lastSignState w) hrst"
      by (auto simp add: CheckHRS_def sameHRS_def split: if_splits)
    with assms(3) have b: "SignBytes req \<noteq> ss_SignBytes (lastSignState w)"
      by (simp add: isReplay_def)
    have "OnlyDifferByTimestamp env (lastSignState w) (SignBytes req) = None"
    proof (rule ccontr)
      assume "OnlyDifferByTimestamp env (lastSignState w) (SignBytes req) \<noteq> None"
      with assms(1,2) c True b show False by (auto simp add: sign_def Let_def)
    qed
    with c True b assms(2) show ?thesis by (simp add: passesStateChecks_def)
  qed
qed

subsection \<open>The state checks of sign\<close>

text \<open>
  C1. A sign request whose (Height, Round, Step) is strictly less than the HRS of the last
  sign state fails with \<^verbatim>\<open>RegressionError\<close>, and the call returns before it touches
  anything: the state after the call is the state before it, so no entry of \<^verbatim>\<open>hrsMeta\<close>
  has been created, and the sign state in memory and on disk is the one before.
\<close>
theorem sign_regression_refused:
  assumes "UnpackHRST env (SignBytes req) = Inr hrst"
    and "hrs_less (Height hrst) (Round hrst) (Step hrst)
           (ss_Height (lastSignState w)) (ss_Round (lastSignState w)) (ss_Step (lastSignState w))"
  shows "sign env w req = (Inl RegressionError, w)"
  using assms by (simp add: sign_def CheckHRS_regression)

text \<open>
  C2. A sign request at the HRS of the last sign state whose sign bytes differ from the
  recorded ones in a field other than the timestamp fails with \<^verbatim>\<open>ConflictingDataError\<close>;
  the state is unchanged, so nothing was signed and nothing was written.
\<close>
theorem sign_conflict_refused:
  assumes "UnpackHRST env (SignBytes req) = Inr hrst"
    and "sameHRS (lastSignState w) hrst"
    and "UnmarshalVote env (SignBytes req) = Some new"
    and "UnmarshalVote env (ss_SignBytes (lastSignState w)) = Some old"
    and "vote_Height new \<noteq> vote_Height old \<or> vote_Round new \<noteq> vote_Round old
         \<or> vote_Step new \<noteq> vote_Step old \<or> vote_Other new \<noteq> vote_Other old"
  shows "sign env w req = (Inl ConflictingDataError, w)"
proof -
  from assms(3-5) have b: "SignBytes req \<noteq> ss_SignBytes (lastSignState w)" by auto
  from assms(3-5) have "OnlyDifferByTimestamp env (lastSignState w) (SignBytes req)
      = Some ConflictingDataError"
    by (auto simp add: OnlyDifferByTimestamp_def)
  with b assms(1) CheckHRS_same [OF assms(2)] show ?thesis
    by (simp add: sign_def Let_def)
qed

text \<open>
  C3. A sign request at the HRS of the last sign state whose sign bytes are identical to
  the recorded ones returns the recorded \<^verbatim>\<open>EphemeralPublic\<close> and \<^verbatim>\<open>Signature\<close>, and the
  state, the file included, is unchanged.
\<close>
theorem sign_replay_idempotent:
  assumes "UnpackHRST env (SignBytes req) = Inr hrst"
    and "sameHRS (lastSignState w) hrst"
    and "SignBytes req = ss_SignBytes (lastSignState w)"
  shows "sign env w req =
           (Inr \<lparr>EphemeralPublic = ss_EphemeralPublic (lastSignState w),
                 Signature = ss_Signature (lastSignState w)\<rparr>, w)"
  using assms(1,3) CheckHRS_same [OF assms(2)] by (simp add: sign_def Let_def)

subsection \<open>The ephemeral share, the dealer, the peers\<close>

text \<open>
  C4. In every call of \<^verbatim>\<open>sign\<close>, either \<^verbatim>\<open>SignWithShare\<close> is not called, or it is called
  once, with the sum of the non-empty peer shares as its ephemeral share, and that sum is
  32 bytes long and passes \<^verbatim>\<open>ScMinimal\<close>. A call that gets as far as the aggregation with
  a sum that is not so fails with \<^verbatim>\<open>EphemeralShareOutOfBounds\<close> and changes nothing.
\<close>
theorem sign_share_canonical:
  "(signWithShareCalls (snd (sign env w req)) = signWithShareCalls w \<or>
    (\<exists>hrst meta.
        UnpackHRST env (SignBytes req) = Inr hrst \<and> hrsMeta w hrst = Some meta \<and>
        length (ephemeralShareOf env w meta) = 32 \<and> ScMinimal env (ephemeralShareOf env w meta) \<and>
        signWithShareCalls (snd (sign env w req)) =
          (SignBytes req, ShareKey (key w), ephemeralShareOf env w meta, pubKeyBytes w,
           ephemeralPublicOf env w meta) # signWithShareCalls w))
   \<and> (\<forall>hrst meta.
        passesStateChecks env w req hrst \<and> hrsMeta w hrst = Some meta \<and>
        \<not> (length (ephemeralShareOf env w meta) = 32 \<and> ScMinimal env (ephemeralShareOf env w meta))
        \<longrightarrow> sign env w req = (Inl EphemeralShareOutOfBounds, w))"
proof (intro conjI allI impI)
  fix hrst meta
  assume "passesStateChecks env w req hrst \<and> hrsMeta w hrst = Some meta \<and>
        \<not> (length (ephemeralShareOf env w meta) = 32 \<and> ScMinimal env (ephemeralShareOf env w meta))"
  then show "sign env w req = (Inl EphemeralShareOutOfBounds, w)"
    using sign_out_of_bounds [of env w req hrst meta] by (simp add: canonicalShare_def)
next
  show "signWithShareCalls (snd (sign env w req)) = signWithShareCalls w \<or>
    (\<exists>hrst meta.
        UnpackHRST env (SignBytes req) = Inr hrst \<and> hrsMeta w hrst = Some meta \<and>
        length (ephemeralShareOf env w meta) = 32 \<and> ScMinimal env (ephemeralShareOf env w meta) \<and>
        signWithShareCalls (snd (sign env w req)) =
          (SignBytes req, ShareKey (key w), ephemeralShareOf env w meta, pubKeyBytes w,
           ephemeralPublicOf env w meta) # signWithShareCalls w)"
  proof (cases "\<exists>hrst. passesStateChecks env w req hrst")
    case False
    then show ?thesis using sign_unchecked [of env w req] by simp
  next
    case True
    then obtain hrst where p: "passesStateChecks env w req hrst" ..
    then have u: "UnpackHRST env (SignBytes req) = Inr hrst"
      by (simp add: passesStateChecks_def)
    show ?thesis
    proof (cases "hrsMeta w hrst")
      case None
      with p show ?thesis by (simp add: sign_no_metadata)
    next
      case (Some meta)
      show ?thesis
      proof (cases "canonicalShare env (ephemeralShareOf env w meta)")
        case False
        with p Some show ?thesis by (simp add: sign_out_of_bounds)
      next
        case True
        obtain err lss' dsk' where
          "Save env (lastSignState (signedWorld env w req meta)) (disk w)
             (consensusRecord env w req hrst meta) = (err, lss', dsk')"
          by (cases "Save env (lastSignState (signedWorld env w req meta)) (disk w)
             (consensusRecord env w req hrst meta)") auto
        from sign_signed [OF p Some True this]
        have "signWithShareCalls (snd (sign env w req)) =
          (SignBytes req, ShareKey (key w), ephemeralShareOf env w meta, pubKeyBytes w,
           ephemeralPublicOf env w meta) # signWithShareCalls w"
          by (simp add: signedWorld_def split: option.splits)
        with u Some True show ?thesis by (auto simp add: canonicalShare_def)
      qed
    qed
  qed
qed

text \<open>
  C5. \<^verbatim>\<open>dealShares\<close> on a key that is present returns the stored metadata and leaves the
  state as it is: no random bytes are read, nothing is dealt, nothing is stored. After a
  call that returned metadata, every further call for the same request returns the same
  metadata, again without changing the state.
\<close>
theorem dealShares_idempotent:
  "(hrsMeta w (getKey req) = Some meta \<longrightarrow> dealShares env w req = (Inr meta, w)) \<and>
   (dealShares env w req = (Inr meta, w') \<longrightarrow> dealShares env w' req = (Inr meta, w'))"
proof (intro conjI impI)
  assume "hrsMeta w (getKey req) = Some meta"
  then show "dealShares env w req = (Inr meta, w)" by (simp add: dealShares_def)
next
  assume d: "dealShares env w req = (Inr meta, w')"
  then have "hrsMeta w' (getKey req) = Some meta"
    by (auto simp add: dealShares_def Let_def split: option.splits)
  then show "dealShares env w' req = (Inr meta, w')" by (simp add: dealShares_def)
qed

text \<open>
  C6, as amended. After a call of \<^verbatim>\<open>sign\<close> that succeeds for \<^verbatim>\<open>hrst\<close> otherwise than by
  replaying the recorded signature (same HRS and identical sign bytes), \<^verbatim>\<open>hrsMeta\<close> holds
  no key that is \<^verbatim>\<open>Less\<close> than \<^verbatim>\<open>hrst\<close>.
\<close>
theorem sign_collects_lower_metadata:
  assumes "sign env w req = (Inr res, w')" and "UnpackHRST env (SignBytes req) = Inr hrst"
    and "\<not> isReplay w req hrst"
  shows "\<forall>k. Less k hrst \<longrightarrow> hrsMeta w' k = None"
proof -
  from assms have p: "passesStateChecks env w req hrst" by (rule sign_success_checked)
  show ?thesis
  proof (cases "hrsMeta w hrst")
    case None
    with p assms(1) show ?thesis by (simp add: sign_no_metadata)
  next
    case (Some meta)
    show ?thesis
    proof (cases "canonicalShare env (ephemeralShareOf env w meta)")
      case False
      with p Some assms(1) show ?thesis by (simp add: sign_out_of_bounds)
    next
      case True
      obtain err lss' dsk' where
        "Save env (lastSignState (signedWorld env w req meta)) (disk w)
           (consensusRecord env w req hrst meta) = (err, lss', dsk')"
        by (cases "Save env (lastSignState (signedWorld env w req meta)) (disk w)
           (consensusRecord env w req hrst meta)") auto
      from sign_signed [OF p Some True this] assms(1)
      have "hrsMeta w' = deleteLower hrst (hrsMeta w)"
        by (auto split: option.splits if_splits)
      then show ?thesis by (simp add: deleteLower_def)
    qed
  qed
qed

text \<open>
  C7. \<^verbatim>\<open>setEphemeralSecretPart\<close> returns success, or writes to any \<^verbatim>\<open>Peers\<close> array, only if
  \<^verbatim>\<open>SourceSig\<close> is present and verifies under the configured public key of the claimed
  \<^verbatim>\<open>SourceID\<close>. Without \<^verbatim>\<open>SourceSig\<close> the call fails with \<^verbatim>\<open>MissingSignature\<close>; whenever the
  envelope does not verify the call fails, and the state is unchanged.
\<close>
theorem setEphemeralSecretPart_authenticated:
  "(fst (setEphemeralSecretPart env w req) = Inr () \<longrightarrow> envelopeVerifies env w req) \<and>
   (store (snd (setEphemeralSecretPart env w req)) \<noteq> store w \<longrightarrow> envelopeVerifies env w req) \<and>
   (set_SourceSig req = None \<longrightarrow>
      setEphemeralSecretPart env w req = (Inl MissingSignature, w)) \<and>
   (\<not> envelopeVerifies env w req \<longrightarrow> (\<exists>e. setEphemeralSecretPart env w req = (Inl e, w)))"
proof -
  have n: "\<exists>e. setEphemeralSecretPart env w req = (Inl e, w)" if "\<not> envelopeVerifies env w req"
    using that
    by (auto simp add: setEphemeralSecretPart_def envelopeVerifies_def Let_def
        split: option.splits)
  have m: "setEphemeralSecretPart env w req = (Inl MissingSignature, w)"
    if "set_SourceSig req = None"
    using that by (simp add: setEphemeralSecretPart_def)
  have a: "envelopeVerifies env w req" if "fst (setEphemeralSecretPart env w req) = Inr ()"
  proof (rule ccontr)
    assume "\<not> envelopeVerifies env w req"
    then obtain e where "setEphemeralSecretPart env w req = (Inl e, w)" using n by blast
    with that show False by simp
  qed
  have b: "envelopeVerifies env w req"
    if "store (snd (setEphemeralSecretPart env w req)) \<noteq> store w"
  proof (rule ccontr)
    assume "\<not> envelopeVerifies env w req"
    then obtain e where "setEphemeralSecretPart env w req = (Inl e, w)" using n by blast
    with that show False by simp
  qed
  from a b m n show ?thesis by blast
qed

subsection \<open>Metadata created on demand\<close>

lemma lookupOrDeal_miss:
  assumes "hrsMeta w hrst = None" and "RandRead env (rng w) 32 = Some secret"
  shows "\<exists>meta w1. lookupOrDeal env w hrst dealReq = (Inr meta, w1) \<and>
           hrsMeta w1 = (hrsMeta w)(getKey dealReq \<mapsto> meta, hrst \<mapsto> meta) \<and>
           peers w1 = peers w \<and> key w1 = key w \<and> rsaKey w1 = rsaKey w"
proof (cases "hrsMeta w (getKey dealReq)")
  case None
  with assms show ?thesis
    by (simp add: lookupOrDeal_def dealShares_def Let_def)
next
  case (Some meta)
  then have "(hrsMeta w)(getKey dealReq \<mapsto> meta) = hrsMeta w" by (rule map_upd_triv)
  with Some assms show ?thesis
    by (simp add: lookupOrDeal_def dealShares_def Let_def)
qed

lemma UnixNano_zeroTime: "UnixNano zeroTime = - 6795364578871345152"
  by (simp add: UnixNano_def zeroTime_def time_sec_def time_nsec_def hasMonotonic_def
      unixToInternal_def nsecMask_def)

text \<open>
  C8, as amended. When \<^verbatim>\<open>setEphemeralSecretPart\<close> finds no metadata under the key of the
  request, it calls \<^verbatim>\<open>dealShares\<close> with the timestamp left out, so that the metadata is
  kept under the key whose \<^verbatim>\<open>Timestamp\<close> is the \<^verbatim>\<open>UnixNano\<close> of the zero time, which is
  -6795364578871345152, and then also under the key of the request.
  \<^verbatim>\<open>getEphemeralSecretPart\<close> calls \<^verbatim>\<open>dealShares\<close> with the timestamp of the request: the
  metadata is kept under the key of the request only.
\<close>
theorem lazily_dealt_metadata_keys:
  "(envelopeVerifies env w sreq \<and> hrsMeta w (setKey sreq) = None \<and>
    RandRead env (rng w) 32 \<noteq> None \<longrightarrow>
      (\<exists>meta. hrsMeta (snd (setEphemeralSecretPart env w sreq)) =
                 (hrsMeta w)(zeroKey sreq \<mapsto> meta, setKey sreq \<mapsto> meta)) \<and>
      Timestamp (zeroKey sreq) = - 6795364578871345152) \<and>
   (hrsMeta w (getKey greq) = None \<and> RandRead env (rng w) 32 \<noteq> None \<longrightarrow>
      (\<exists>meta. hrsMeta (snd (getEphemeralSecretPart env w greq)) =
                 (hrsMeta w)(getKey greq \<mapsto> meta)) \<and>
      Timestamp (getKey greq) = UnixNano (get_Timestamp greq))"
proof (intro conjI impI)
  assume "envelopeVerifies env w sreq \<and> hrsMeta w (setKey sreq) = None \<and>
    RandRead env (rng w) 32 \<noteq> None"
  then obtain secret where v: "envelopeVerifies env w sreq"
    and h: "hrsMeta w (setKey sreq) = None" and r: "RandRead env (rng w) 32 = Some secret"
    by auto
  from lookupOrDeal_miss [OF h r]
  obtain meta w1 where l: "lookupOrDeal env w (setKey sreq)
        \<lparr>get_ID = 0, get_Height = set_Height sreq, get_Round = set_Round sreq,
         get_Step = set_Step sreq, get_Timestamp = zeroTime\<rparr> = (Inr meta, w1)"
    and m: "hrsMeta w1 = (hrsMeta w)(zeroKey sreq \<mapsto> meta, setKey sreq \<mapsto> meta)"
    unfolding zeroKey_def by blast
  from v l have "hrsMeta (snd (setEphemeralSecretPart env w sreq)) = hrsMeta w1"
    by (auto simp add: setEphemeralSecretPart_def envelopeVerifies_def Let_def
        split: option.splits)
  with m show "\<exists>meta. hrsMeta (snd (setEphemeralSecretPart env w sreq)) =
                 (hrsMeta w)(zeroKey sreq \<mapsto> meta, setKey sreq \<mapsto> meta)" by auto
next
  show "Timestamp (zeroKey sreq) = - 6795364578871345152"
    by (simp add: zeroKey_def getKey_def UnixNano_zeroTime)
next
  assume "hrsMeta w (getKey greq) = None \<and> RandRead env (rng w) 32 \<noteq> None"
  then obtain secret where h: "hrsMeta w (getKey greq) = None"
    and r: "RandRead env (rng w) 32 = Some secret" by auto
  from lookupOrDeal_miss [OF h r]
  obtain meta w1 where l: "lookupOrDeal env w (getKey greq)
        \<lparr>get_ID = 0, get_Height = get_Height greq, get_Round = get_Round greq,
         get_Step = get_Step greq, get_Timestamp = get_Timestamp greq\<rparr> = (Inr meta, w1)"
    and m: "hrsMeta w1 = (hrsMeta w)(getKey \<lparr>get_ID = 0, get_Height = get_Height greq, get_Round = get_Round greq,
         get_Step = get_Step greq, get_Timestamp = get_Timestamp greq\<rparr> \<mapsto> meta, getKey greq \<mapsto> meta)"
    by blast
  have k: "getKey \<lparr>get_ID = 0, get_Height = get_Height greq, get_Round = get_Round greq,
         get_Step = get_Step greq, get_Timestamp = get_Timestamp greq\<rparr> = getKey greq"
    by (simp add: getKey_def)
  from l have "hrsMeta (snd (getEphemeralSecretPart env w greq)) = hrsMeta w1"
    by (auto simp add: getEphemeralSecretPart_def Let_def split: option.splits)
  with m k show "\<exists>meta. hrsMeta (snd (getEphemeralSecretPart env w greq)) =
                 (hrsMeta w)(getKey greq \<mapsto> meta)" by auto
next
  show "Timestamp (getKey greq) = UnixNano (get_Timestamp greq)" by (simp add: getKey_def)
qed

subsection \<open>What sign does not check\<close>

lemma sign_threshold_free:
  "sign env (w\<lparr>threshold := t\<rparr>) req =
     (fst (sign env w req), (snd (sign env w req))\<lparr>threshold := t\<rparr>)"
  by (simp add: sign_def Let_def slots_def split: sum.splits option.splits prod.splits)

text \<open>
  C9. \<^verbatim>\<open>sign\<close> never reads \<^verbatim>\<open>threshold\<close>. Once the state checks are passed and the
  metadata is there, a sum of the non-empty shares that is 32 bytes long and minimal is
  all it takes: the partial signature is returned and, the file system permitting,
  written to the file, however few slots are populated; and for any value of
  \<^verbatim>\<open>threshold\<close> the call does the same.
\<close>
theorem sign_ignores_threshold:
  assumes "passesStateChecks env w req hrst" and "hrsMeta w hrst = Some meta"
    and "length (ephemeralShareOf env w meta) = 32"
    and "ScMinimal env (ephemeralShareOf env w meta)"
    and "WriteFile env (savedRecord hrst (SignBytes req) (ephemeralPublicOf env w meta)
                          (partialSignature env w req meta))"
  shows "fst (sign env w req) =
           Inr \<lparr>EphemeralPublic = ephemeralPublicOf env w meta,
                Signature = partialSignature env w req meta\<rparr> \<and>
         lastSignState (snd (sign env w req)) =
           savedRecord hrst (SignBytes req) (ephemeralPublicOf env w meta)
             (partialSignature env w req meta) \<and>
         disk (snd (sign env w req)) =
           savedRecord hrst (SignBytes req) (ephemeralPublicOf env w meta)
             (partialSignature env w req meta) # disk w \<and>
         (\<forall>t. sign env (w\<lparr>threshold := t\<rparr>) req =
                (fst (sign env w req), (snd (sign env w req))\<lparr>threshold := t\<rparr>))"
proof -
  from assms(3,4) have c: "canonicalShare env (ephemeralShareOf env w meta)"
    by (simp add: canonicalShare_def)
  let ?rec = "savedRecord hrst (SignBytes req) (ephemeralPublicOf env w meta)
                (partialSignature env w req meta)"
  from Save_after_checks [OF assms(1)] assms(5)
  have "Save env (lastSignState (signedWorld env w req meta)) (disk w)
          (consensusRecord env w req hrst meta) = (None, ?rec, ?rec # disk w)"
    by (simp add: signedWorld_def consensusRecord_def)
  from sign_signed [OF assms(1,2) c this] show ?thesis
    by (simp add: sign_threshold_free)
qed

text \<open>
  C10. \<^verbatim>\<open>sign\<close> assigns the new aggregate to \<^verbatim>\<open>lastSignState.EphemeralPublic\<close> before it
  calls \<^verbatim>\<open>Save\<close>. When \<^verbatim>\<open>Save\<close> fails with an error other than \<^verbatim>\<open>SameHRSError\<close>, the call
  returns that error and \<^verbatim>\<open>EphemeralPublic\<close> in memory is the new aggregate.
\<close>
theorem sign_failed_save_not_atomic:
  assumes "passesStateChecks env w req hrst" and "hrsMeta w hrst = Some meta"
    and "length (ephemeralShareOf env w meta) = 32"
    and "ScMinimal env (ephemeralShareOf env w meta)"
    and "Save env ((lastSignState w)\<lparr>ss_EphemeralPublic := ephemeralPublicOf env w meta\<rparr>)
           (disk w) (consensusRecord env w req hrst meta) = (Some e, lss', dsk')"
    and "e \<noteq> SameHRSError"
  shows "fst (sign env w req) = Inl e \<and>
         ss_EphemeralPublic (lastSignState (snd (sign env w req))) = ephemeralPublicOf env w meta"
proof -
  from assms(3,4) have c: "canonicalShare env (ephemeralShareOf env w meta)"
    by (simp add: canonicalShare_def)
  from assms(5) have s: "Save env (lastSignState (signedWorld env w req meta)) (disk w)
          (consensusRecord env w req hrst meta) = (Some e, lss', dsk')"
    by (simp add: signedWorld_def)
  from Save_failure_keeps_state [OF assms(5)]
  have "ss_EphemeralPublic lss' = ephemeralPublicOf env w meta" by simp
  with sign_signed [OF assms(1,2) c s] assms(6) show ?thesis by simp
qed

section \<open>The properties on the small instance\<close>

theorem sign_regression_refused_witness:
  "UnpackHRST toy_env [10, 0, 1, 0, 5] = Inr \<lparr>Height = 10, Round = 0, Step = 1, Timestamp = 0\<rparr> \<and>
   hrs_less 10 0 1 (ss_Height (lastSignState toy_world)) (ss_Round (lastSignState toy_world))
     (ss_Step (lastSignState toy_world)) \<and>
   sign toy_env toy_world \<lparr>SignBytes = [10, 0, 1, 0, 5]\<rparr> = (Inl RegressionError, toy_world) \<and>
   hrsMeta toy_world \<lparr>Height = 10, Round = 0, Step = 1, Timestamp = 0\<rparr> = None"
proof -
  have u: "UnpackHRST toy_env (SignBytes \<lparr>SignBytes = [10, 0, 1, 0, 5]\<rparr>)
      = Inr \<lparr>Height = 10, Round = 0, Step = 1, Timestamp = 0\<rparr>"
    by (simp add: UnpackHRST_def toy_defs)
  have l: "hrs_less (Height \<lparr>Height = 10, Round = 0, Step = 1, Timestamp = 0\<rparr>)
      (Round \<lparr>Height = 10, Round = 0, Step = 1, Timestamp = 0\<rparr>)
      (Step \<lparr>Height = 10, Round = 0, Step = 1, Timestamp = 0\<rparr>)
      (ss_Height (lastSignState toy_world)) (ss_Round (lastSignState toy_world))
      (ss_Step (lastSignState toy_world))"
    by (simp add: hrs_less_def toy_defs)
  have m: "hrsMeta toy_world \<lparr>Height = 10, Round = 0, Step = 1, Timestamp = 0\<rparr> = None"
    by (simp add: toy_defs)
  from sign_regression_refused [OF u l] u l m show ?thesis by simp
qed

theorem sign_conflict_refused_witness:
  "sameHRS (lastSignState toy_world) \<lparr>Height = 10, Round = 0, Step = 2, Timestamp = 1\<rparr> \<and>
   vote_Other (the (UnmarshalVote toy_env [10, 0, 2, 1, 6])) = [6] \<and>
   vote_Other (the (UnmarshalVote toy_env (ss_SignBytes (lastSignState toy_world)))) = [5] \<and>
   sign toy_env toy_world \<lparr>SignBytes = [10, 0, 2, 1, 6]\<rparr> = (Inl ConflictingDataError, toy_world)"
proof -
  have u: "UnpackHRST toy_env (SignBytes \<lparr>SignBytes = [10, 0, 2, 1, 6]\<rparr>)
      = Inr \<lparr>Height = 10, Round = 0, Step = 2, Timestamp = 1\<rparr>"
    by (simp add: UnpackHRST_def toy_defs)
  have s: "sameHRS (lastSignState toy_world) \<lparr>Height = 10, Round = 0, Step = 2, Timestamp = 1\<rparr>"
    by (simp add: sameHRS_def toy_defs)
  have n: "UnmarshalVote toy_env (SignBytes \<lparr>SignBytes = [10, 0, 2, 1, 6]\<rparr>) =
      Some \<lparr>vote_Height = 10, vote_Round = 0, vote_Step = 2, vote_Timestamp = 1, vote_Other = [6]\<rparr>"
    by (simp add: toy_defs)
  have o: "UnmarshalVote toy_env (ss_SignBytes (lastSignState toy_world)) =
      Some \<lparr>vote_Height = 10, vote_Round = 0, vote_Step = 2, vote_Timestamp = 0, vote_Other = [5]\<rparr>"
    by (simp add: toy_defs)
  have d: "vote_Height \<lparr>vote_Height = 10, vote_Round = 0, vote_Step = 2, vote_Timestamp = 1, vote_Other = [6]\<rparr>
        \<noteq> vote_Height \<lparr>vote_Height = 10, vote_Round = 0, vote_Step = 2, vote_Timestamp = 0, vote_Other = [5]\<rparr>
      \<or> vote_Round \<lparr>vote_Height = 10, vote_Round = 0, vote_Step = 2, vote_Timestamp = 1, vote_Other = [6]\<rparr>
        \<noteq> vote_Round \<lparr>vote_Height = 10, vote_Round = 0, vote_Step = 2, vote_Timestamp = 0, vote_Other = [5]\<rparr>
      \<or> vote_Step \<lparr>vote_Height = 10, vote_Round = 0, vote_Step = 2, vote_Timestamp = 1, vote_Other = [6]\<rparr>
        \<noteq> vote_Step \<lparr>vote_Height = 10, vote_Round = 0, vote_Step = 2, vote_Timestamp = 0, vote_Other = [5]\<rparr>
      \<or> vote_Other \<lparr>vote_Height = 10, vote_Round = 0, vote_Step = 2, vote_Timestamp = 1, vote_Other = [6]\<rparr>
        \<noteq> vote_Other \<lparr>vote_Height = 10, vote_Round = 0, vote_Step = 2, vote_Timestamp = 0, vote_Other = [5]\<rparr>"
    by simp
  from sign_conflict_refused [OF u s n o d] s n o show ?thesis by simp
qed

theorem sign_replay_idempotent_witness:
  "sameHRS (lastSignState toy_world) \<lparr>Height = 10, Round = 0, Step = 2, Timestamp = 0\<rparr> \<and>
   ss_SignBytes (lastSignState toy_world) = [10, 0, 2, 0, 5] \<and>
   sign toy_env toy_world \<lparr>SignBytes = [10, 0, 2, 0, 5]\<rparr> =
     (Inr \<lparr>EphemeralPublic = [7], Signature = [9]\<rparr>, toy_world)"
proof -
  have u: "UnpackHRST toy_env (SignBytes \<lparr>SignBytes = [10, 0, 2, 0, 5]\<rparr>)
      = Inr \<lparr>Height = 10, Round = 0, Step = 2, Timestamp = 0\<rparr>"
    by (simp add: UnpackHRST_def toy_defs)
  have s: "sameHRS (lastSignState toy_world) \<lparr>Height = 10, Round = 0, Step = 2, Timestamp = 0\<rparr>"
    by (simp add: sameHRS_def toy_defs)
  have b: "SignBytes \<lparr>SignBytes = [10, 0, 2, 0, 5]\<rparr> = ss_SignBytes (lastSignState toy_world)"
    by (simp add: toy_defs)
  have e: "ss_EphemeralPublic (lastSignState toy_world) = [7]"
    "ss_Signature (lastSignState toy_world) = [9]"
    by (simp_all add: toy_defs)
  from sign_replay_idempotent [OF u s b] s b e show ?thesis by simp
qed

lemma toy_checks_11:
  "passesStateChecks toy_env (one_share_world 11) \<lparr>SignBytes = [11, 0, 2, 0, 5]\<rparr>
     \<lparr>Height = 11, Round = 0, Step = 2, Timestamp = 0\<rparr>"
  by (simp add: passesStateChecks_def UnpackHRST_def CheckHRS_def hrs_less_def toy_defs)

lemma toy_checks_short:
  "passesStateChecks toy_env short_share_world \<lparr>SignBytes = [11, 0, 2, 0, 5]\<rparr>
     \<lparr>Height = 11, Round = 0, Step = 2, Timestamp = 0\<rparr>"
  by (simp add: passesStateChecks_def UnpackHRST_def CheckHRS_def hrs_less_def toy_defs)

lemma toy_share_11: "ephemeralShareOf toy_env (one_share_world 11) toy_meta = replicate 32 3"
  by (simp add: ephemeralShareOf_def populated_def slots_def toy_defs)

lemma toy_public_11: "ephemeralPublicOf toy_env (one_share_world 11) toy_meta = replicate 32 4"
  by (simp add: ephemeralPublicOf_def populated_def slots_def toy_defs)

lemma toy_share_short: "ephemeralShareOf toy_env short_share_world toy_meta = [6]"
  by code_simp

theorem sign_share_canonical_witness:
  "ephemeralShareOf toy_env short_share_world toy_meta = [6] \<and>
   sign toy_env short_share_world \<lparr>SignBytes = [11, 0, 2, 0, 5]\<rparr>
     = (Inl EphemeralShareOutOfBounds, short_share_world) \<and>
   signWithShareCalls (snd (sign toy_env short_share_world \<lparr>SignBytes = [11, 0, 2, 0, 5]\<rparr>)) = []"
proof -
  have m: "hrsMeta short_share_world \<lparr>Height = 11, Round = 0, Step = 2, Timestamp = 0\<rparr>
      = Some toy_meta"
    by (simp add: toy_defs)
  have c: "signWithShareCalls short_share_world = []" by (simp add: toy_defs)
  from sign_share_canonical [of toy_env short_share_world "\<lparr>SignBytes = [11, 0, 2, 0, 5]\<rparr>"]
    toy_checks_short m toy_share_short
  have "sign toy_env short_share_world \<lparr>SignBytes = [11, 0, 2, 0, 5]\<rparr>
     = (Inl EphemeralShareOutOfBounds, short_share_world)"
    by auto
  with toy_share_short c show ?thesis by simp
qed

theorem dealShares_idempotent_witness:
  "hrsMeta (one_share_world 11)
     (getKey \<lparr>get_ID = 2, get_Height = 11, get_Round = 0, get_Step = 2,
              get_Timestamp = \<lparr>wall = 0, ext = 62135596800\<rparr>\<rparr>) = Some toy_meta \<and>
   dealShares toy_env (one_share_world 11)
     \<lparr>get_ID = 2, get_Height = 11, get_Round = 0, get_Step = 2,
      get_Timestamp = \<lparr>wall = 0, ext = 62135596800\<rparr>\<rparr> = (Inr toy_meta, one_share_world 11) \<and>
   fst (dealShares toy_env toy_world toy_get_request) =
     Inr \<lparr>Secret = replicate 32 1, DealtShares = replicate 3 (replicate 32 1), Peers = 0\<rparr> \<and>
   dealShares toy_env (snd (dealShares toy_env toy_world toy_get_request)) toy_get_request =
     dealShares toy_env toy_world toy_get_request"
proof -
  let ?req = "\<lparr>get_ID = 2, get_Height = 11, get_Round = 0, get_Step = 2,
      get_Timestamp = \<lparr>wall = 0, ext = 62135596800\<rparr>\<rparr>"
  let ?meta = "\<lparr>Secret = replicate 32 1, DealtShares = replicate 3 (replicate 32 1), Peers = 0\<rparr>"
  have k: "getKey ?req = \<lparr>Height = 11, Round = 0, Step = 2, Timestamp = 0\<rparr>"
    by (simp add: getKey_def UnixNano_def time_sec_def time_nsec_def hasMonotonic_def
        unixToInternal_def nsecMask_def)
  have h: "hrsMeta (one_share_world 11) (getKey ?req) = Some toy_meta"
    by (simp add: k) (simp add: toy_defs)
  have n: "hrsMeta toy_world (getKey toy_get_request) = None" by (simp add: toy_defs)
  have f: "fst (dealShares toy_env toy_world toy_get_request) = Inr ?meta"
    by (simp add: dealShares_def Let_def n) (simp add: toy_defs Let_def)
  then have d: "dealShares toy_env toy_world toy_get_request =
      (Inr ?meta, snd (dealShares toy_env toy_world toy_get_request))"
    by (metis prod.collapse)
  from dealShares_idempotent [of "one_share_world 11" ?req toy_meta toy_env] h
  have a: "dealShares toy_env (one_share_world 11) ?req = (Inr toy_meta, one_share_world 11)"
    by blast
  from dealShares_idempotent [of toy_world toy_get_request ?meta toy_env
      "snd (dealShares toy_env toy_world toy_get_request)"] d
  have "dealShares toy_env (snd (dealShares toy_env toy_world toy_get_request)) toy_get_request =
     dealShares toy_env toy_world toy_get_request" by simp
  with h a f show ?thesis by simp
qed

theorem sign_replay_keeps_lower_metadata_counterexample:
  "fst (sign toy_env (one_share_world 5) \<lparr>SignBytes = [10, 0, 2, 0, 5]\<rparr>)
     = Inr \<lparr>EphemeralPublic = [7], Signature = [9]\<rparr> \<and>
   UnpackHRST toy_env [10, 0, 2, 0, 5] = Inr \<lparr>Height = 10, Round = 0, Step = 2, Timestamp = 0\<rparr> \<and>
   Less \<lparr>Height = 5, Round = 0, Step = 2, Timestamp = 0\<rparr>
        \<lparr>Height = 10, Round = 0, Step = 2, Timestamp = 0\<rparr> \<and>
   hrsMeta (snd (sign toy_env (one_share_world 5) \<lparr>SignBytes = [10, 0, 2, 0, 5]\<rparr>))
     \<lparr>Height = 5, Round = 0, Step = 2, Timestamp = 0\<rparr> = Some toy_meta"
  by (simp add: sign_def UnpackHRST_def CheckHRS_def Less_def hrs_less_def Let_def toy_defs)

lemma toy_checks_two:
  "passesStateChecks toy_env two_round_world \<lparr>SignBytes = [11, 0, 2, 0, 5]\<rparr>
     \<lparr>Height = 11, Round = 0, Step = 2, Timestamp = 0\<rparr>"
  by (simp add: passesStateChecks_def UnpackHRST_def CheckHRS_def hrs_less_def toy_defs)

lemma toy_sign_two:
  "fst (sign toy_env two_round_world \<lparr>SignBytes = [11, 0, 2, 0, 5]\<rparr>) =
     Inr \<lparr>EphemeralPublic = replicate 32 4, Signature = replicate 32 4 @ replicate 32 4\<rparr>"
  by code_simp

theorem sign_collects_lower_metadata_witness:
  "fst (sign toy_env two_round_world \<lparr>SignBytes = [11, 0, 2, 0, 5]\<rparr>) =
     Inr \<lparr>EphemeralPublic = replicate 32 4, Signature = replicate 32 4 @ replicate 32 4\<rparr> \<and>
   hrsMeta two_round_world \<lparr>Height = 5, Round = 0, Step = 2, Timestamp = 0\<rparr> = Some toy_meta \<and>
   Less \<lparr>Height = 5, Round = 0, Step = 2, Timestamp = 0\<rparr>
        \<lparr>Height = 11, Round = 0, Step = 2, Timestamp = 0\<rparr> \<and>
   hrsMeta (snd (sign toy_env two_round_world \<lparr>SignBytes = [11, 0, 2, 0, 5]\<rparr>))
     \<lparr>Height = 5, Round = 0, Step = 2, Timestamp = 0\<rparr> = None"
proof -
  let ?req = "\<lparr>SignBytes = [11, 0, 2, 0, 5]\<rparr>"
  let ?h = "\<lparr>Height = 11, Round = 0, Step = 2, Timestamp = 0\<rparr>"
  from toy_sign_two have s: "sign toy_env two_round_world ?req =
     (Inr \<lparr>EphemeralPublic = replicate 32 4, Signature = replicate 32 4 @ replicate 32 4\<rparr>,
      snd (sign toy_env two_round_world ?req))"
    by (metis prod.collapse)
  have u: "UnpackHRST toy_env (SignBytes ?req) = Inr ?h"
    by (simp add: UnpackHRST_def toy_defs)
  have r: "\<not> isReplay two_round_world ?req ?h"
    by (simp add: isReplay_def sameHRS_def toy_defs)
  have l: "Less \<lparr>Height = 5, Round = 0, Step = 2, Timestamp = 0\<rparr> ?h"
    by (simp add: Less_def hrs_less_def)
  have m: "hrsMeta two_round_world \<lparr>Height = 5, Round = 0, Step = 2, Timestamp = 0\<rparr> = Some toy_meta"
    by (simp add: toy_defs)
  from sign_collects_lower_metadata [OF s u r] l
  have "hrsMeta (snd (sign toy_env two_round_world ?req))
     \<lparr>Height = 5, Round = 0, Step = 2, Timestamp = 0\<rparr> = None" by blast
  with toy_sign_two l m show ?thesis by simp
qed

theorem setEphemeralSecretPart_authenticated_witness:
  "fst (setEphemeralSecretPart toy_env toy_world toy_set_request) = Inr () \<and>
   envelopeVerifies toy_env toy_world toy_set_request \<and>
   \<not> envelopeVerifies toy_env toy_world forged_set_request \<and>
   setEphemeralSecretPart toy_env toy_world forged_set_request = (Inl PeerAuthError, toy_world) \<and>
   setEphemeralSecretPart toy_env toy_world (toy_set_request\<lparr>set_SourceSig := None\<rparr>)
     = (Inl MissingSignature, toy_world)"
proof -
  have a: "fst (setEphemeralSecretPart toy_env toy_world toy_set_request) = Inr ()"
    by code_simp
  have f: "\<not> envelopeVerifies toy_env toy_world forged_set_request"
    by (simp add: envelopeVerifies_def toy_defs)
  have p: "fst (setEphemeralSecretPart toy_env toy_world forged_set_request) = Inl PeerAuthError"
    by (simp add: setEphemeralSecretPart_def toy_defs)
  have n: "set_SourceSig (toy_set_request\<lparr>set_SourceSig := None\<rparr>) = None" by simp
  from setEphemeralSecretPart_authenticated [of toy_env toy_world toy_set_request] a
  have v: "envelopeVerifies toy_env toy_world toy_set_request" by blast
  from setEphemeralSecretPart_authenticated [of toy_env toy_world forged_set_request] f
  obtain e where "setEphemeralSecretPart toy_env toy_world forged_set_request = (Inl e, toy_world)"
    by blast
  with p have q: "setEphemeralSecretPart toy_env toy_world forged_set_request
      = (Inl PeerAuthError, toy_world)" by simp
  from setEphemeralSecretPart_authenticated
    [of toy_env toy_world "toy_set_request\<lparr>set_SourceSig := None\<rparr>"] n
  have "setEphemeralSecretPart toy_env toy_world (toy_set_request\<lparr>set_SourceSig := None\<rparr>)
     = (Inl MissingSignature, toy_world)" by blast
  with a v f q show ?thesis by simp
qed

theorem lazily_dealt_key_timestamp_counterexample:
  "hrsMeta toy_world (setKey toy_set_request) = None \<and>
   fst (setEphemeralSecretPart toy_env toy_world toy_set_request) = Inr () \<and>
   hrsMeta (snd (setEphemeralSecretPart toy_env toy_world toy_set_request))
     \<lparr>Height = 11, Round = 0, Step = 2, Timestamp = 0\<rparr> = None \<and>
   hrsMeta (snd (setEphemeralSecretPart toy_env toy_world toy_set_request))
     \<lparr>Height = 11, Round = 0, Step = 2, Timestamp = - 6795364578871345152\<rparr> =
     Some \<lparr>Secret = replicate 32 1, DealtShares = replicate 3 (replicate 32 1), Peers = 0\<rparr>"
  by code_simp

theorem lazily_dealt_metadata_keys_witness:
  "envelopeVerifies toy_env toy_world toy_set_request \<and>
   hrsMeta toy_world (setKey toy_set_request) = None \<and>
   hrsMeta toy_world (getKey toy_get_request) = None \<and>
   RandRead toy_env (rng toy_world) 32 = Some (replicate 32 1) \<and>
   Timestamp (setKey toy_set_request) = 1000000000 \<and>
   Timestamp (zeroKey toy_set_request) = - 6795364578871345152 \<and>
   Timestamp (getKey toy_get_request) = 1000000000 \<and>
   (\<exists>meta. hrsMeta (snd (setEphemeralSecretPart toy_env toy_world toy_set_request)) =
            [zeroKey toy_set_request \<mapsto> meta, setKey toy_set_request \<mapsto> meta]) \<and>
   (\<exists>meta. hrsMeta (snd (getEphemeralSecretPart toy_env toy_world toy_get_request)) =
            [getKey toy_get_request \<mapsto> meta])"
proof -
  have v: "envelopeVerifies toy_env toy_world toy_set_request"
    by (simp add: envelopeVerifies_def toy_defs)
  have ks: "setKey toy_set_request = \<lparr>Height = 11, Round = 0, Step = 2, Timestamp = 1000000000\<rparr>"
    by (simp add: setKey_def toy_defs UnixNano_def time_sec_def time_nsec_def hasMonotonic_def
        unixToInternal_def nsecMask_def)
  have kg: "getKey toy_get_request = \<lparr>Height = 11, Round = 0, Step = 2, Timestamp = 1000000000\<rparr>"
    by (simp add: getKey_def toy_defs UnixNano_def time_sec_def time_nsec_def hasMonotonic_def
        unixToInternal_def nsecMask_def)
  have e: "hrsMeta toy_world = Map.empty" by (simp add: toy_defs)
  have r: "RandRead toy_env (rng toy_world) 32 = Some (replicate 32 1)"
    by (simp add: toy_defs)
  from lazily_dealt_metadata_keys [of toy_env toy_world toy_set_request toy_get_request] v e r
  have "(\<exists>meta. hrsMeta (snd (setEphemeralSecretPart toy_env toy_world toy_set_request)) =
            [zeroKey toy_set_request \<mapsto> meta, setKey toy_set_request \<mapsto> meta]) \<and>
        Timestamp (zeroKey toy_set_request) = - 6795364578871345152 \<and>
        (\<exists>meta. hrsMeta (snd (getEphemeralSecretPart toy_env toy_world toy_get_request)) =
            [getKey toy_get_request \<mapsto> meta])"
    by simp
  with v e r ks kg show ?thesis by simp
qed

lemma toy_write_11:
  "WriteFile toy_env r"
  by (simp add: toy_defs)

theorem sign_ignores_threshold_witness:
  "length (populated (slots (one_share_world 11) (Peers toy_meta))) = 1 \<and>
   threshold (one_share_world 11) = 2 \<and>
   fst (sign toy_env (one_share_world 11) \<lparr>SignBytes = [11, 0, 2, 0, 5]\<rparr>) =
     Inr \<lparr>EphemeralPublic = replicate 32 4,
          Signature = partialSignature toy_env (one_share_world 11)
                        \<lparr>SignBytes = [11, 0, 2, 0, 5]\<rparr> toy_meta\<rparr> \<and>
   disk (snd (sign toy_env (one_share_world 11) \<lparr>SignBytes = [11, 0, 2, 0, 5]\<rparr>)) =
     [savedRecord \<lparr>Height = 11, Round = 0, Step = 2, Timestamp = 0\<rparr> [11, 0, 2, 0, 5]
        (replicate 32 4)
        (partialSignature toy_env (one_share_world 11) \<lparr>SignBytes = [11, 0, 2, 0, 5]\<rparr> toy_meta),
      toy_state]"
proof -
  let ?req = "\<lparr>SignBytes = [11, 0, 2, 0, 5]\<rparr>"
  let ?h = "\<lparr>Height = 11, Round = 0, Step = 2, Timestamp = 0\<rparr>"
  have m: "hrsMeta (one_share_world 11) ?h = Some toy_meta" by (simp add: toy_defs)
  have l: "length (ephemeralShareOf toy_env (one_share_world 11) toy_meta) = 32"
    by (simp add: toy_share_11)
  have c: "ScMinimal toy_env (ephemeralShareOf toy_env (one_share_world 11) toy_meta)"
    by (simp add: toy_share_11) (simp add: toy_defs)
  have n: "length (populated (slots (one_share_world 11) (Peers toy_meta))) = 1"
    by (simp add: populated_def slots_def toy_defs)
  have t: "threshold (one_share_world 11) = 2" by (simp add: toy_defs)
  have d: "disk (one_share_world 11) = [toy_state]" by (simp add: toy_defs)
  from sign_ignores_threshold [OF toy_checks_11 m l c toy_write_11] n t d toy_public_11
  show ?thesis by simp
qed

theorem sign_failed_save_not_atomic_witness:
  "fst (sign failing_disk_env (one_share_world 11) \<lparr>SignBytes = [11, 0, 2, 0, 5]\<rparr>) = Inl IOError \<and>
   ss_EphemeralPublic (lastSignState (one_share_world 11)) = [7] \<and>
   ss_EphemeralPublic
     (lastSignState (snd (sign failing_disk_env (one_share_world 11)
                            \<lparr>SignBytes = [11, 0, 2, 0, 5]\<rparr>))) = replicate 32 4"
proof -
  let ?req = "\<lparr>SignBytes = [11, 0, 2, 0, 5]\<rparr>"
  let ?h = "\<lparr>Height = 11, Round = 0, Step = 2, Timestamp = 0\<rparr>"
  let ?w = "one_share_world 11"
  have p: "passesStateChecks failing_disk_env ?w ?req ?h"
    by (simp add: passesStateChecks_def UnpackHRST_def CheckHRS_def hrs_less_def toy_defs)
  have m: "hrsMeta ?w ?h = Some toy_meta" by (simp add: toy_defs)
  have s: "ephemeralShareOf failing_disk_env ?w toy_meta = replicate 32 3"
    by (simp add: ephemeralShareOf_def populated_def slots_def toy_defs)
  have q: "ephemeralPublicOf failing_disk_env ?w toy_meta = replicate 32 4"
    by (simp add: ephemeralPublicOf_def populated_def slots_def toy_defs)
  have l: "length (ephemeralShareOf failing_disk_env ?w toy_meta) = 32" by (simp add: s)
  have c: "ScMinimal failing_disk_env (ephemeralShareOf failing_disk_env ?w toy_meta)"
    by (simp add: s) (simp add: toy_defs)
  have f: "Save failing_disk_env
             ((lastSignState ?w)\<lparr>ss_EphemeralPublic := ephemeralPublicOf failing_disk_env ?w toy_meta\<rparr>)
             (disk ?w) (consensusRecord failing_disk_env ?w ?req ?h toy_meta)
           = (Some IOError,
              (lastSignState ?w)\<lparr>ss_EphemeralPublic := ephemeralPublicOf failing_disk_env ?w toy_meta\<rparr>,
              disk ?w)"
    by (simp add: Save_def Let_def consensusRecord_def hrs_less_def) (simp add: toy_defs)
  have o: "ss_EphemeralPublic (lastSignState ?w) = [7]" by (simp add: toy_defs)
  have i: "IOError \<noteq> SameHRSError" by simp
  from sign_failed_save_not_atomic [OF p m l c f i] o q show ?thesis by simp
qed

end
